theory Spec2Isabelle
  imports Complex_Main
begin

section \<open>Media Monitor: the per-file ingestion pipeline of app.py\<close>

text \<open>
  The development follows \<^verbatim>\<open>src/app.py\<close>: the values \<^verbatim>\<open>json.loads\<close> produces and
  the few Python operations the pipeline applies to them, the classification rules inside
  \<^verbatim>\<open>analyze_file\<close>, the stabilisation loop \<^verbatim>\<open>wait_for_stable_file\<close>, the table
  \<^verbatim>\<open>processed_files\<close> with its two statements, the probe \<^verbatim>\<open>get_media_info\<close>, the two
  notification senders and the workflow \<^verbatim>\<open>analyze_file\<close> itself.  Every exception the
  source can raise is a value of the type \<open>exn\<close>; every answer of the outside world
  (file sizes, the probe process, the HTTP endpoints, the database file) is an input.
\<close>

subsection \<open>Python values and exceptions\<close>

text \<open>
  What \<^verbatim>\<open>json.loads\<close> returns: \<^verbatim>\<open>None\<close>, a bool, an int, a float, a str, a list or a
  dict.  A float is represented by the rational number it denotes (\<^verbatim>\<open>NaN\<close> and the
  infinities, which behave in everything below as any non-zero float does, have no value
  of their own).  A dict is an association list read with \<open>map_of\<close>, so the first
  binding of a key is the dict's entry.
\<close>

datatype json =
    JNull
  | JBool bool
  | JInt int
  | JFloat rat
  | JStr string
  | JArr "json list"
  | JObj "(string \<times> json) list"

datatype exn =
    FileNotFoundError
  | OSError
  | AttributeError
  | TypeError
  | ValueError
  | OperationalError
  | RequestException

text \<open>Python's truth value of an object, as \<^verbatim>\<open>not x\<close> and \<^verbatim>\<open>if x\<close> test it.\<close>

fun truthy :: "json \<Rightarrow> bool" where
  "truthy JNull = False"
| "truthy (JBool b) = b"
| "truthy (JInt i) = (i \<noteq> 0)"
| "truthy (JFloat r) = (r \<noteq> 0)"
| "truthy (JStr s) = (s \<noteq> [])"
| "truthy (JArr xs) = (xs \<noteq> [])"
| "truthy (JObj kvs) = (kvs \<noteq> [])"

text \<open>
  \<^verbatim>\<open>x.get(key, default)\<close>: only a dict has the attribute \<^verbatim>\<open>get\<close>; on every other
  value the attribute lookup raises \<^verbatim>\<open>AttributeError\<close>.
\<close>

fun py_get :: "json \<Rightarrow> string \<Rightarrow> json \<Rightarrow> exn + json" where
  "py_get (JObj kvs) k d = Inr (case map_of kvs k of None \<Rightarrow> d | Some v \<Rightarrow> v)"
| "py_get _ k d = Inl AttributeError"

text \<open>
  \<^verbatim>\<open>for s in x\<close>: a list yields its elements, a dict its keys, a str its characters;
  \<^verbatim>\<open>None\<close>, a bool and a number are not iterable (\<^verbatim>\<open>TypeError\<close>).
\<close>

fun py_iter :: "json \<Rightarrow> exn + json list" where
  "py_iter (JArr xs) = Inr xs"
| "py_iter (JObj kvs) = Inr (map JStr (remdups (map fst kvs)))"
| "py_iter (JStr s) = Inr (map (\<lambda>c. JStr [c]) s)"
| "py_iter _ = Inl TypeError"

text \<open>\<^verbatim>\<open>sep.join(xs)\<close> on a list of strings.\<close>

fun str_join :: "string \<Rightarrow> string list \<Rightarrow> string" where
  "str_join sep [] = []"
| "str_join sep [x] = x"
| "str_join sep (x # y # ys) = x @ sep @ str_join sep (y # ys)"

subsection \<open>Classification (analyze\_file, lines 294--317)\<close>

text \<open>
  The condition of the two generator expressions,
  \<^verbatim>\<open>s.get('codec_type') == kind and not s.get('tags', {}).get('language')\<close>.
  The \<^verbatim>\<open>and\<close> is short-circuit: the tags of a stream of another kind are never read.
\<close>

definition stream_missing :: "string \<Rightarrow> json \<Rightarrow> exn + bool" where
  "stream_missing kind s =
     (case py_get s ''codec_type'' JNull of
        Inl e \<Rightarrow> Inl e
      | Inr c \<Rightarrow>
          if c = JStr kind then
            (case py_get s ''tags'' (JObj []) of
               Inl e \<Rightarrow> Inl e
             | Inr tg \<Rightarrow>
                 (case py_get tg ''language'' JNull of
                    Inl e \<Rightarrow> Inl e
                  | Inr l \<Rightarrow> Inr (\<not> truthy l)))
          else Inr False)"

text \<open>\<^verbatim>\<open>sum(1 for s in streams if cond(s))\<close>; the first exception ends the sum.\<close>

fun sum_missing :: "string \<Rightarrow> json list \<Rightarrow> exn + int" where
  "sum_missing kind [] = Inr 0"
| "sum_missing kind (s # ss) =
     (case stream_missing kind s of
        Inl e \<Rightarrow> Inl e
      | Inr b \<Rightarrow>
          (case sum_missing kind ss of
             Inl e \<Rightarrow> Inl e
           | Inr n \<Rightarrow> Inr (if b then 1 + n else n)))"

text \<open>
  \<^verbatim>\<open>sum(1 for s in media_info.get('streams', []) if ...)\<close>: the lookup, the iteration
  and the sum.
\<close>

definition count_missing :: "string \<Rightarrow> json \<Rightarrow> exn + int" where
  "count_missing kind media_info =
     (case py_get media_info ''streams'' (JArr []) of
        Inl e \<Rightarrow> Inl e
      | Inr ss \<Rightarrow>
          (case py_iter ss of
             Inl e \<Rightarrow> Inl e
           | Inr xs \<Rightarrow> sum_missing kind xs))"

text \<open>The list \<^verbatim>\<open>status\<close> as the three \<^verbatim>\<open>if\<close> statements build it, and its join.\<close>

definition status_list :: "int \<Rightarrow> bool \<Rightarrow> string list" where
  "status_list fsize needs_remux =
     (let status = [];
          status = (if fsize > 20 * 1024 * 1024 * 1024 then status @ [''RE-ENCODE''] else status);
          status = (if needs_remux then status @ [''REMUX''] else status);
          status = (if status = [] then status @ [''OK''] else status)
      in status)"

definition classify :: "json \<Rightarrow> int \<Rightarrow> exn + string" where
  "classify media_info fsize =
     (case count_missing ''audio'' media_info of
        Inl e \<Rightarrow> Inl e
      | Inr audio_missing \<Rightarrow>
          (case count_missing ''subtitle'' media_info of
             Inl e \<Rightarrow> Inl e
           | Inr sub_missing \<Rightarrow>
               (let needs_remux = (audio_missing > 0 \<or> sub_missing > 0)
                in Inr (str_join '' | '' (status_list fsize needs_remux)))))"

text \<open>
  The vocabulary of the classification rules, read off a metadata record without running
  the code: the streams of the record, the kind of a stream, its language tag (the entry
  \<^verbatim>\<open>language\<close> of its \<^verbatim>\<open>tags\<close>), and a stream lacking a language tag: it has none, or
  an empty one.  \<open>metadata_ok\<close> is the shape of the probe tool's output: an object whose
  \<^verbatim>\<open>streams\<close>, when present, is an array of objects whose \<^verbatim>\<open>tags\<close>, when present,
  is an object.
\<close>

fun streams_of :: "json \<Rightarrow> json list" where
  "streams_of (JObj kvs) = (case map_of kvs ''streams'' of Some (JArr ss) \<Rightarrow> ss | _ \<Rightarrow> [])"
| "streams_of _ = []"

fun is_kind :: "string \<Rightarrow> json \<Rightarrow> bool" where
  "is_kind kind (JObj kvs) = (map_of kvs ''codec_type'' = Some (JStr kind))"
| "is_kind kind _ = False"

fun language_tag :: "json \<Rightarrow> json option" where
  "language_tag (JObj kvs) =
     (case map_of kvs ''tags'' of
        Some (JObj tg) \<Rightarrow> map_of tg ''language''
      | _ \<Rightarrow> None)"
| "language_tag _ = None"

definition lacks_language :: "json \<Rightarrow> bool" where
  "lacks_language s = (case language_tag s of None \<Rightarrow> True | Some l \<Rightarrow> \<not> truthy l)"

definition untagged :: "string \<Rightarrow> json \<Rightarrow> bool" where
  "untagged kind media_info =
     list_ex (\<lambda>s. is_kind kind s \<and> lacks_language s) (streams_of media_info)"

fun stream_ok :: "json \<Rightarrow> bool" where
  "stream_ok (JObj kvs) =
     (case map_of kvs ''tags'' of
        None \<Rightarrow> True
      | Some (JObj tg) \<Rightarrow> True
      | Some _ \<Rightarrow> False)"
| "stream_ok _ = False"

fun metadata_ok :: "json \<Rightarrow> bool" where
  "metadata_ok (JObj kvs) =
     (case map_of kvs ''streams'' of
        None \<Rightarrow> True
      | Some (JArr ss) \<Rightarrow> list_all stream_ok ss
      | Some _ \<Rightarrow> False)"
| "metadata_ok _ = False"

subsection \<open>Stabilisation (wait\_for\_stable\_file)\<close>

text \<open>
  One call of \<^verbatim>\<open>os.path.getsize(filepath)\<close> answers with the size, raises
  \<^verbatim>\<open>FileNotFoundError\<close>, or raises another \<^verbatim>\<open>OSError\<close> (a permission or I/O error).
  The answers of the successive calls are a list.  The loop has no bound of its own: when
  the list ends while \<^verbatim>\<open>stable_count < STABILIZE_CHECKS\<close> still holds, the result is
  \<open>Polling\<close> with the loop's two variables, the next call being still to come.  The other
  results carry the answers not yet consumed.  \<^verbatim>\<open>time.sleep\<close> is not represented.
\<close>

datatype sample = Size int | Missing | Denied

datatype wait_result =
    Stable "sample list"
  | Vanished "sample list"
  | WaitRaised exn "sample list"
  | Polling int int

fun wait_loop :: "int \<Rightarrow> int \<Rightarrow> int \<Rightarrow> sample list \<Rightarrow> wait_result" where
  "wait_loop checks last_size stable_count [] =
     (if stable_count < checks then Polling last_size stable_count else Stable [])"
| "wait_loop checks last_size stable_count (x # rest) =
     (if stable_count < checks then
        (case x of
           Size current_size \<Rightarrow>
             if current_size = last_size
             then wait_loop checks last_size (stable_count + 1) rest
             else wait_loop checks current_size 0 rest
         | Missing \<Rightarrow> Vanished rest
         | Denied \<Rightarrow> WaitRaised OSError rest)
      else Stable (x # rest))"

text \<open>\<open>Stable\<close> is the source's \<^verbatim>\<open>return True\<close>, \<open>Vanished\<close> its \<^verbatim>\<open>return False\<close>.\<close>

definition wait_for_stable_file :: "int \<Rightarrow> sample list \<Rightarrow> wait_result" where
  "wait_for_stable_file STABILIZE_CHECKS samples = wait_loop STABILIZE_CHECKS (- 1) 0 samples"

subsection \<open>The table processed\_files\<close>

text \<open>
  A row of \<^verbatim>\<open>processed_files\<close>; \<^verbatim>\<open>filepath\<close> is the primary key.  The table is the
  list of its rows in insertion order.
\<close>

record row =
  r_filepath :: string
  r_processed_at :: int
  r_status :: string
  r_size :: int

type_synonym table = "row list"

text \<open>
  \<^verbatim>\<open>init_db\<close>: \<^verbatim>\<open>CREATE TABLE IF NOT EXISTS\<close> keeps the table of an existing database
  file and creates an empty one otherwise.
\<close>

definition init_db :: "table option \<Rightarrow> table" where
  "init_db db_file = (case db_file of None \<Rightarrow> [] | Some tbl \<Rightarrow> tbl)"

text \<open>\<^verbatim>\<open>SELECT filepath FROM processed_files WHERE filepath = ?\<close> and \<^verbatim>\<open>fetchone\<close>.\<close>

definition select_filepath :: "table \<Rightarrow> string \<Rightarrow> string list" where
  "select_filepath tbl filepath = map r_filepath (filter (\<lambda>r. r_filepath r = filepath) tbl)"

definition fetchone :: "'a list \<Rightarrow> 'a option" where
  "fetchone rows = (case rows of [] \<Rightarrow> None | r # _ \<Rightarrow> Some r)"

text \<open>
  \<^verbatim>\<open>INSERT OR REPLACE\<close>: the rows that conflict with the new one on the primary key are
  deleted, then the new row is inserted.
\<close>

definition insert_or_replace :: "table \<Rightarrow> row \<Rightarrow> table" where
  "insert_or_replace tbl new = filter (\<lambda>r. r_filepath r \<noteq> r_filepath new) tbl @ [new]"

text \<open>
  The two functions of the source.  Each opens its own connection; \<open>locked\<close> says that
  sqlite3 raises \<^verbatim>\<open>OperationalError\<close> in this call (the file cannot be opened, or is
  locked by another connection).  \<open>now\<close> is the value of \<^verbatim>\<open>datetime.now()\<close>.
\<close>

definition is_already_processed :: "bool \<Rightarrow> table \<Rightarrow> string \<Rightarrow> exn + bool" where
  "is_already_processed locked tbl filepath =
     (if locked then Inl OperationalError
      else Inr (fetchone (select_filepath tbl filepath) \<noteq> None))"

definition mark_as_processed ::
  "bool \<Rightarrow> table \<Rightarrow> string \<Rightarrow> string \<Rightarrow> int \<Rightarrow> int \<Rightarrow> exn + table" where
  "mark_as_processed locked tbl filepath status fsize now =
     (if locked then Inl OperationalError
      else Inr (insert_or_replace tbl
             \<lparr>r_filepath = filepath, r_processed_at = now, r_status = status, r_size = fsize\<rparr>))"

text \<open>
  The table after a sequence of calls of \<^verbatim>\<open>mark_as_processed\<close>, each with its own
  \<open>locked\<close>; a call that raises leaves the table as it was.
\<close>

fun store_after :: "(bool \<times> string \<times> string \<times> int \<times> int) list \<Rightarrow> table \<Rightarrow> table" where
  "store_after [] tbl = tbl"
| "store_after ((locked, filepath, status, fsize, now) # calls) tbl =
     store_after calls
       (case mark_as_processed locked tbl filepath status fsize now of
          Inl e \<Rightarrow> tbl
        | Inr tbl' \<Rightarrow> tbl')"

subsection \<open>The probe (get\_media\_info)\<close>

text \<open>
  What \<^verbatim>\<open>subprocess.run(cmd, capture_output=True, text=True)\<close> does: it raises (the tool
  is not installed, an I/O error, undecodable output), or the tool exits with a return code
  and its standard output.  The standard output is represented by what \<^verbatim>\<open>json.loads\<close>
  makes of it: \<open>Some j\<close> when it parses to \<open>j\<close>, \<open>None\<close> when \<^verbatim>\<open>json.loads\<close> raises.
  The result \<open>JNull\<close> is Python's \<^verbatim>\<open>None\<close>.
\<close>

datatype proc = RunRaises exn | Exited int "json option"

definition get_media_info :: "proc \<Rightarrow> json" where
  "get_media_info run =
     (case run of
        RunRaises e \<Rightarrow> JNull
      | Exited returncode stdout \<Rightarrow>
          (case stdout of None \<Rightarrow> JNull | Some j \<Rightarrow> j))"

text \<open>The workflow's test \<^verbatim>\<open>if not media_info\<close>: the probe has failed.\<close>

definition probe_failed :: "proc \<Rightarrow> bool" where
  "probe_failed run = (\<not> truthy (get_media_info run))"

subsection \<open>Notifications\<close>

text \<open>
  The global \<^verbatim>\<open>config\<close>: a dict that always has these keys; its values come from the
  environment, the configuration file and the settings endpoint, so they are any value.
\<close>

record config =
  ntfy_server :: json
  ntfy_topic :: json
  discord_webhook :: json
  tvdb_api_key :: json
  enable_discord :: json
  enable_ntfy :: json
  enable_posters :: json

text \<open>
  The answer to one \<^verbatim>\<open>requests.post\<close>: a response with its status code (no status code
  raises: the source never calls \<^verbatim>\<open>raise_for_status\<close>), or an exception
  (unreachable endpoint, invalid URL or header).
\<close>

datatype post = Response int | PostRaises exn

text \<open>
  The calls a run makes to the outside world, in order: a \<^verbatim>\<open>getsize\<close>, the probe
  process, a POST to either channel with its answer, and the committed row.  The content
  of the two requests (title, body, embed) is not represented.
\<close>

datatype event =
    Sample
  | Probe
  | NtfyPost post
  | DiscordPost post
  | Mark string string int

text \<open>The lines printed by \<^verbatim>\<open>analyze_file\<close> and by the two senders.\<close>

datatype line =
    Analyzing
  | AlreadyProcessedLine
  | Waiting
  | DisappearedLine
  | NoMediaInfoLine
  | NtfySent int
  | NtfyError exn
  | DiscordSent int
  | DiscordError exn
  | ProcessedLine string
  | ErrorAnalyzing exn

definition send_ntfy_notification :: "config \<Rightarrow> post \<Rightarrow> event list \<times> line list" where
  "send_ntfy_notification cfg answer =
     (if \<not> truthy (enable_ntfy cfg) \<or> \<not> truthy (ntfy_topic cfg) then ([], [])
      else
        (case answer of
           Response status_code \<Rightarrow> ([NtfyPost answer], [NtfySent status_code])
         | PostRaises e \<Rightarrow> ([NtfyPost answer], [NtfyError e])))"

text \<open>
  \<^verbatim>\<open>[s for s in media_info.get('streams', []) if s.get('codec_type') == kind]\<close>
\<close>

fun filter_kind :: "string \<Rightarrow> json list \<Rightarrow> exn + json list" where
  "filter_kind kind [] = Inr []"
| "filter_kind kind (s # ss) =
     (case py_get s ''codec_type'' JNull of
        Inl e \<Rightarrow> Inl e
      | Inr c \<Rightarrow>
          (case filter_kind kind ss of
             Inl e \<Rightarrow> Inl e
           | Inr r \<Rightarrow> Inr (if c = JStr kind then s # r else r)))"

definition kind_streams :: "string \<Rightarrow> json \<Rightarrow> exn + json list" where
  "kind_streams kind media_info =
     (case py_get media_info ''streams'' (JArr []) of
        Inl e \<Rightarrow> Inl e
      | Inr ss \<Rightarrow>
          (case py_iter ss of
             Inl e \<Rightarrow> Inl e
           | Inr xs \<Rightarrow> filter_kind kind xs))"

text \<open>
  The block \<^verbatim>\<open>if media_info:\<close> of \<^verbatim>\<open>send_discord_notification\<close>, for the exceptions
  it can raise.  \<open>float_raises\<close> is Python's \<^verbatim>\<open>float\<close>: the exception it raises on a
  value, if any.
\<close>

definition media_details :: "(json \<Rightarrow> exn option) \<Rightarrow> json \<Rightarrow> exn + unit" where
  "media_details float_raises media_info =
     (if truthy media_info then
        (case py_get media_info ''format'' (JObj []) of
           Inl e \<Rightarrow> Inl e
         | Inr format_info \<Rightarrow>
             (case kind_streams ''video'' media_info of
                Inl e \<Rightarrow> Inl e
              | Inr video_streams \<Rightarrow>
                  (case kind_streams ''audio'' media_info of
                     Inl e \<Rightarrow> Inl e
                   | Inr audio_streams \<Rightarrow>
                       (case py_get format_info ''duration'' (JInt 0) of
                          Inl e \<Rightarrow> Inl e
                        | Inr duration \<Rightarrow>
                            (case float_raises duration of
                               Some e \<Rightarrow> Inl e
                             | None \<Rightarrow> Inr ())))))
      else Inr ())"

definition send_discord_notification ::
  "config \<Rightarrow> (json \<Rightarrow> exn option) \<Rightarrow> post \<Rightarrow> json \<Rightarrow> event list \<times> line list" where
  "send_discord_notification cfg float_raises answer media_info =
     (if \<not> truthy (enable_discord cfg) \<or> \<not> truthy (discord_webhook cfg) then ([], [])
      else
        (case media_details float_raises media_info of
           Inl e \<Rightarrow> ([], [DiscordError e])
         | Inr u \<Rightarrow>
             (case answer of
                Response status_code \<Rightarrow> ([DiscordPost answer], [DiscordSent status_code])
              | PostRaises e \<Rightarrow> ([DiscordPost answer], [DiscordError e]))))"

subsection \<open>The per-file workflow (analyze\_file)\<close>

text \<open>
  Everything a run of \<^verbatim>\<open>analyze_file\<close> reads from outside: the configuration, the
  constant \<^verbatim>\<open>STABILIZE_CHECKS\<close>, whether sqlite3 raises in the dedup check and in the
  final write, the answers of the successive \<^verbatim>\<open>getsize\<close> calls, the probe process, the
  behaviour of \<^verbatim>\<open>float\<close>, the answers of the two endpoints and the clock.
\<close>

record env =
  cfg :: config
  stabilize_checks :: int
  check_locked :: bool
  mark_locked :: bool
  getsize :: "sample list"
  ffprobe :: proc
  float_exn :: "json \<Rightarrow> exn option"
  ntfy_answer :: post
  discord_answer :: post
  datetime_now :: int

text \<open>
  How a run ends: the three early returns, the normal end with the stored status, an
  exception caught by the \<^verbatim>\<open>except Exception\<close> of \<^verbatim>\<open>analyze_file\<close>, an exception
  that leaves \<^verbatim>\<open>analyze_file\<close>, or a run still going on when the supplied \<^verbatim>\<open>getsize\<close>
  answers end.
\<close>

datatype ending =
    AlreadyProcessed
  | Disappeared
  | NoMediaInfo
  | Processed string
  | Caught exn
  | Propagated exn
  | OutOfSamples

record outcome =
  table_after :: table
  events :: "event list"
  printed :: "line list"
  ending :: ending

text \<open>\<^verbatim>\<open>media_info.get('format', {}).get('format_name', 'unknown')\<close>\<close>

definition format_name_of :: "json \<Rightarrow> exn + json" where
  "format_name_of media_info =
     (case py_get media_info ''format'' (JObj []) of
        Inl e \<Rightarrow> Inl e
      | Inr format_info \<Rightarrow> py_get format_info ''format_name'' (JStr ''unknown''))"

text \<open>
  The \<^verbatim>\<open>try\<close> block of \<^verbatim>\<open>analyze_file\<close>, entered after the file is stable: \<open>polls\<close>
  are the events so far and \<open>rest\<close> the \<^verbatim>\<open>getsize\<close> answers still to come.
\<close>

definition analyze_stable ::
  "env \<Rightarrow> table \<Rightarrow> string \<Rightarrow> event list \<Rightarrow> sample list \<Rightarrow> outcome" where
  "analyze_stable w tbl filepath polls rest =
     (case rest of
        [] \<Rightarrow>
          \<lparr>table_after = tbl, events = polls, printed = [Analyzing, Waiting],
           ending = OutOfSamples\<rparr>
      | Missing # later \<Rightarrow>
          \<lparr>table_after = tbl, events = polls @ [Sample],
           printed = [Analyzing, Waiting, ErrorAnalyzing FileNotFoundError],
           ending = Caught FileNotFoundError\<rparr>
      | Denied # later \<Rightarrow>
          \<lparr>table_after = tbl, events = polls @ [Sample],
           printed = [Analyzing, Waiting, ErrorAnalyzing OSError],
           ending = Caught OSError\<rparr>
      | Size fsize # later \<Rightarrow>
          (let media_info = get_media_info (ffprobe w);
               probed = polls @ [Sample, Probe]
           in
             if \<not> truthy media_info then
               \<lparr>table_after = tbl, events = probed,
                printed = [Analyzing, Waiting, NoMediaInfoLine], ending = NoMediaInfo\<rparr>
             else
               (case classify media_info fsize of
                  Inl e \<Rightarrow>
                    \<lparr>table_after = tbl, events = probed,
                     printed = [Analyzing, Waiting, ErrorAnalyzing e], ending = Caught e\<rparr>
                | Inr status_str \<Rightarrow>
                    (case format_name_of media_info of
                       Inl e \<Rightarrow>
                         \<lparr>table_after = tbl, events = probed,
                          printed = [Analyzing, Waiting, ErrorAnalyzing e], ending = Caught e\<rparr>
                     | Inr format_name \<Rightarrow>
                         (let ntfy = send_ntfy_notification (cfg w) (ntfy_answer w);
                              discord = send_discord_notification (cfg w) (float_exn w)
                                          (discord_answer w) media_info;
                              sent = probed @ fst ntfy @ fst discord;
                              said = [Analyzing, Waiting] @ snd ntfy @ snd discord
                          in
                            (case mark_as_processed (mark_locked w) tbl filepath status_str
                                    fsize (datetime_now w) of
                               Inl e \<Rightarrow>
                                 \<lparr>table_after = tbl, events = sent,
                                  printed = said @ [ErrorAnalyzing e], ending = Caught e\<rparr>
                             | Inr tbl' \<Rightarrow>
                                 \<lparr>table_after = tbl',
                                  events = sent @ [Mark filepath status_str fsize],
                                  printed = said @ [ProcessedLine status_str],
                                  ending = Processed status_str\<rparr>))))))"

text \<open>
  \<^verbatim>\<open>analyze_file\<close>.  The dedup check and the stabilisation stand before the \<^verbatim>\<open>try\<close>:
  an exception of theirs leaves the function.
\<close>

definition analyze_file :: "env \<Rightarrow> table \<Rightarrow> string \<Rightarrow> outcome" where
  "analyze_file w tbl filepath =
     (case is_already_processed (check_locked w) tbl filepath of
        Inl e \<Rightarrow>
          \<lparr>table_after = tbl, events = [], printed = [Analyzing], ending = Propagated e\<rparr>
      | Inr seen \<Rightarrow>
          if seen then
            \<lparr>table_after = tbl, events = [], printed = [Analyzing, AlreadyProcessedLine],
             ending = AlreadyProcessed\<rparr>
          else
            (case wait_for_stable_file (stabilize_checks w) (getsize w) of
               Polling last_size stable_count \<Rightarrow>
                 \<lparr>table_after = tbl, events = replicate (length (getsize w)) Sample,
                  printed = [Analyzing, Waiting], ending = OutOfSamples\<rparr>
             | WaitRaised e rest \<Rightarrow>
                 \<lparr>table_after = tbl,
                  events = replicate (length (getsize w) - length rest) Sample,
                  printed = [Analyzing, Waiting], ending = Propagated e\<rparr>
             | Vanished rest \<Rightarrow>
                 \<lparr>table_after = tbl,
                  events = replicate (length (getsize w) - length rest) Sample,
                  printed = [Analyzing, Waiting, DisappearedLine], ending = Disappeared\<rparr>
             | Stable rest \<Rightarrow>
                 analyze_stable w tbl filepath
                   (replicate (length (getsize w) - length rest) Sample) rest))"

text \<open>The events of one kind in a trace.\<close>

fun is_mark :: "event \<Rightarrow> bool" where
  "is_mark (Mark filepath status fsize) = True"
| "is_mark _ = False"

fun is_ntfy :: "event \<Rightarrow> bool" where
  "is_ntfy (NtfyPost answer) = True"
| "is_ntfy _ = False"

fun is_discord :: "event \<Rightarrow> bool" where
  "is_discord (DiscordPost answer) = True"
| "is_discord _ = False"

fun is_probe :: "event \<Rightarrow> bool" where
  "is_probe Probe = True"
| "is_probe _ = False"

subsection \<open>Two workers on one path\<close>

text \<open>
  \<^verbatim>\<open>analyze_file\<close> from the line after the dedup check on (lines 279--336), for a
  worker that has passed the check; \<open>tbl\<close> is the table its final write finds.
\<close>

definition after_check :: "env \<Rightarrow> table \<Rightarrow> string \<Rightarrow> outcome" where
  "after_check w tbl filepath =
     (case wait_for_stable_file (stabilize_checks w) (getsize w) of
        Polling last_size stable_count \<Rightarrow>
          \<lparr>table_after = tbl, events = replicate (length (getsize w)) Sample,
           printed = [Analyzing, Waiting], ending = OutOfSamples\<rparr>
      | WaitRaised e rest \<Rightarrow>
          \<lparr>table_after = tbl,
           events = replicate (length (getsize w) - length rest) Sample,
           printed = [Analyzing, Waiting], ending = Propagated e\<rparr>
      | Vanished rest \<Rightarrow>
          \<lparr>table_after = tbl,
           events = replicate (length (getsize w) - length rest) Sample,
           printed = [Analyzing, Waiting, DisappearedLine], ending = Disappeared\<rparr>
      | Stable rest \<Rightarrow>
          analyze_stable w tbl filepath
            (replicate (length (getsize w) - length rest) Sample) rest)"

text \<open>
  \<^verbatim>\<open>analyze_file\<close> with the answer of its dedup check given: the check may have read
  the table earlier than the rest of the run finds it.
\<close>

definition analyze_checked :: "exn + bool \<Rightarrow> env \<Rightarrow> table \<Rightarrow> string \<Rightarrow> outcome" where
  "analyze_checked seen w tbl filepath =
     (case seen of
        Inl e \<Rightarrow>
          \<lparr>table_after = tbl, events = [], printed = [Analyzing], ending = Propagated e\<rparr>
      | Inr b \<Rightarrow>
          if b then
            \<lparr>table_after = tbl, events = [], printed = [Analyzing, AlreadyProcessedLine],
             ending = AlreadyProcessed\<rparr>
          else after_check w tbl filepath)"

text \<open>
  Two calls \<^verbatim>\<open>executor.submit(analyze_file, filepath)\<close> for one path (a creation event
  and a move event), run by two workers in this order: the first worker's dedup check, the
  second worker's dedup check, the rest of the first worker's run, the rest of the second
  worker's run.  The source holds no lock between its check at line 275 and its write at
  line 331, and each of the two functions opens a connection of its own, so nothing
  excludes this order.  Both checks read the table \<open>tbl\<close>; the second worker's write
  finds the table the first worker has left.
\<close>

definition race :: "env \<Rightarrow> env \<Rightarrow> table \<Rightarrow> string \<Rightarrow> outcome \<times> outcome" where
  "race w1 w2 tbl filepath =
     (let seen1 = is_already_processed (check_locked w1) tbl filepath;
          seen2 = is_already_processed (check_locked w2) tbl filepath;
          first = analyze_checked seen1 w1 tbl filepath;
          second = analyze_checked seen2 w2 (table_after first) filepath
      in (first, second))"

subsection \<open>Example inputs\<close>

text \<open>
  A probe output with the given streams, a stream with a language tag and one without
  tags, a configuration with both channels enabled, and an environment in which a file of
  100 bytes stays unchanged, the probe succeeds and both endpoints answer.
  \<open>sample_float\<close> answers for \<^verbatim>\<open>float\<close> on the values of these examples: numbers and
  bools convert, a string of digits and dots converts, \<^verbatim>\<open>None\<close>, lists and dicts raise
  \<^verbatim>\<open>TypeError\<close>, any other string \<^verbatim>\<open>ValueError\<close>.
\<close>

definition stream_with :: "string \<Rightarrow> string \<Rightarrow> json" where
  "stream_with kind lang =
     JObj [(''codec_type'', JStr kind), (''codec_name'', JStr ''copy''),
           (''tags'', JObj [(''language'', JStr lang)])]"

definition stream_without :: "string \<Rightarrow> json" where
  "stream_without kind = JObj [(''codec_type'', JStr kind), (''codec_name'', JStr ''copy'')]"

definition probe_output :: "json list \<Rightarrow> json" where
  "probe_output ss =
     JObj [(''streams'', JArr ss),
           (''format'', JObj [(''format_name'', JStr ''matroska,webm''),
                              (''duration'', JStr ''5400.000000'')])]"

definition sample_info :: json where
  "sample_info = probe_output [stream_without ''video'', stream_with ''audio'' ''eng'']"

definition sample_config :: config where
  "sample_config =
     \<lparr>ntfy_server = JStr ''https://ntfy.sh'', ntfy_topic = JStr ''media'',
      discord_webhook = JStr ''https://discord.example/api/webhooks/1'',
      tvdb_api_key = JStr [], enable_discord = JBool True, enable_ntfy = JBool True,
      enable_posters = JBool True\<rparr>"

definition sample_float :: "json \<Rightarrow> exn option" where
  "sample_float d =
     (case d of
        JNull \<Rightarrow> Some TypeError
      | JArr xs \<Rightarrow> Some TypeError
      | JObj kvs \<Rightarrow> Some TypeError
      | JStr s \<Rightarrow>
          if s \<noteq> [] \<and> list_all (\<lambda>c. c \<in> set ''0123456789.'') s then None
          else Some ValueError
      | _ \<Rightarrow> None)"

definition sample_env :: env where
  "sample_env =
     \<lparr>cfg = sample_config, stabilize_checks = 3, check_locked = False, mark_locked = False,
      getsize = [Size 100, Size 100, Size 100, Size 100, Size 100],
      ffprobe = Exited 0 (Some sample_info), float_exn = sample_float,
      ntfy_answer = Response 200, discord_answer = Response 204,
      datetime_now = 1700000000\<rparr>"

definition sample_path :: string where
  "sample_path = ''/watch/Show/Show.S01E01.mkv''"

section \<open>Classification\<close>

text \<open>On a stream of the probe's shape the generator's condition is the rule's.\<close>

lemma stream_missing_ok:
  "stream_ok s \<Longrightarrow> stream_missing kind s = Inr (is_kind kind s \<and> lacks_language s)"
  by (cases s) (auto simp: stream_missing_def lacks_language_def split: option.splits json.splits)

lemma sum_missing_ok:
  "list_all stream_ok ss \<Longrightarrow>
   sum_missing kind ss =
     Inr (int (length (filter (\<lambda>s. is_kind kind s \<and> lacks_language s) ss)))"
  by (induction ss) (simp_all add: stream_missing_ok)

lemma count_missing_ok:
  "metadata_ok media_info \<Longrightarrow>
   count_missing kind media_info =
     Inr (int (length (filter (\<lambda>s. is_kind kind s \<and> lacks_language s)
                         (streams_of media_info))))"
  by (cases media_info)
     (auto simp: count_missing_def sum_missing_ok split: option.splits json.splits)

lemma count_positive: "(0 < int (length (filter P xs))) = list_ex P xs"
  by (induction xs) auto

lemma status_join:
  "str_join '' | '' (status_list fsize needs_remux) =
     (if fsize > 20 * 1024 * 1024 * 1024
      then (if needs_remux then ''RE-ENCODE | REMUX'' else ''RE-ENCODE'')
      else (if needs_remux then ''REMUX'' else ''OK''))"
  by (simp add: status_list_def)

lemma classify_ok:
  "metadata_ok media_info \<Longrightarrow>
   classify media_info fsize =
     Inr (if fsize > 20 * 1024 ^ 3
          then (if untagged ''audio'' media_info \<or> untagged ''subtitle'' media_info
                then ''RE-ENCODE | REMUX'' else ''RE-ENCODE'')
          else (if untagged ''audio'' media_info \<or> untagged ''subtitle'' media_info
                then ''REMUX'' else ''OK''))"
  by (simp add: classify_def count_missing_ok count_positive status_join untagged_def
        del: of_nat_0_less_iff)

lemma stream_of_metadata_ok:
  "metadata_ok media_info \<Longrightarrow> s \<in> set (streams_of media_info) \<Longrightarrow> stream_ok s"
  by (cases media_info) (auto simp: list_all_iff split: option.splits json.splits)

lemma untagged_member:
  "s \<in> set (streams_of media_info) \<Longrightarrow> is_kind kind s \<Longrightarrow> lacks_language s \<Longrightarrow>
   untagged kind media_info"
  by (auto simp: untagged_def list_ex_iff)

text \<open>
  C1.  For every metadata record of the probe's shape and every file size, the status is
  decided by two independent rules: RE-ENCODE is in it exactly when the size exceeds
  \<open>20 * 1024^3\<close> bytes, REMUX exactly when some audio stream or some subtitle stream lacks a
  language tag, the status is \<open>OK\<close> exactly when neither rule fires, and when both fire it
  is the one string \<open>RE-ENCODE | REMUX\<close>.
\<close>

theorem classify_rules:
  assumes "metadata_ok media_info"
  shows "classify media_info fsize =
     Inr (if fsize > 20 * 1024 ^ 3
          then (if untagged ''audio'' media_info \<or> untagged ''subtitle'' media_info
                then ''RE-ENCODE | REMUX'' else ''RE-ENCODE'')
          else (if untagged ''audio'' media_info \<or> untagged ''subtitle'' media_info
                then ''REMUX'' else ''OK''))"
  using assms by (rule classify_ok)

text \<open>
  The four files of the specification: 25 GiB fully tagged, 1 GiB with an untagged audio
  stream, 25 GiB with an untagged subtitle stream, 1 GiB fully tagged.
\<close>

theorem classify_rules_witness:
  "metadata_ok (probe_output [stream_without ''video'', stream_with ''audio'' ''eng'',
                              stream_with ''subtitle'' ''eng''])
   \<and> classify (probe_output [stream_without ''video'', stream_with ''audio'' ''eng'',
                            stream_with ''subtitle'' ''eng'']) (25 * 1024 ^ 3)
       = Inr ''RE-ENCODE''
   \<and> classify (probe_output [stream_without ''video'', stream_without ''audio''])
        (1024 ^ 3) = Inr ''REMUX''
   \<and> classify (probe_output [stream_without ''video'', stream_with ''audio'' ''eng'',
                            stream_without ''subtitle'']) (25 * 1024 ^ 3)
       = Inr ''RE-ENCODE | REMUX''
   \<and> classify (probe_output [stream_without ''video'', stream_with ''audio'' ''eng'',
                            stream_with ''subtitle'' ''eng'']) (1024 ^ 3)
       = Inr ''OK''"
proof -
  let ?full = "probe_output [stream_without ''video'', stream_with ''audio'' ''eng'',
                             stream_with ''subtitle'' ''eng'']"
  let ?noaudio = "probe_output [stream_without ''video'', stream_without ''audio'']"
  let ?nosub = "probe_output [stream_without ''video'', stream_with ''audio'' ''eng'',
                              stream_without ''subtitle'']"
  note defs = probe_output_def stream_with_def stream_without_def untagged_def
    lacks_language_def
  have ok: "metadata_ok ?full" "metadata_ok ?noaudio" "metadata_ok ?nosub"
    by (simp_all add: defs)
  have full: "\<not> untagged ''audio'' ?full" "\<not> untagged ''subtitle'' ?full"
    by (simp_all add: defs)
  have noaudio: "untagged ''audio'' ?noaudio"
    by (simp add: defs)
  have nosub: "untagged ''subtitle'' ?nosub"
    by (simp add: defs)
  have 1: "classify ?full (25 * 1024 ^ 3) = Inr ''RE-ENCODE''"
    using classify_rules [OF ok(1), of "25 * 1024 ^ 3"] full by simp
  have 2: "classify ?noaudio (1024 ^ 3) = Inr ''REMUX''"
    using classify_rules [OF ok(2), of "1024 ^ 3"] noaudio by simp
  have 3: "classify ?nosub (25 * 1024 ^ 3) = Inr ''RE-ENCODE | REMUX''"
    using classify_rules [OF ok(3), of "25 * 1024 ^ 3"] nosub by simp
  have 4: "classify ?full (1024 ^ 3) = Inr ''OK''"
    using classify_rules [OF ok(1), of "1024 ^ 3"] full by simp
  from ok(1) 1 2 3 4 show ?thesis by blast
qed

text \<open>
  C10.  An audio or subtitle stream whose language tag is the empty string is counted by
  the generator like one with no language tag at all, and either one puts REMUX into the
  status.
\<close>

theorem empty_language_counts_as_missing:
  assumes "metadata_ok media_info"
      and "s \<in> set (streams_of media_info)"
      and "is_kind ''audio'' s \<or> is_kind ''subtitle'' s"
      and "language_tag s = Some (JStr []) \<or> language_tag s = None"
  shows "stream_missing ''audio'' s = Inr (is_kind ''audio'' s)
       \<and> stream_missing ''subtitle'' s = Inr (is_kind ''subtitle'' s)
       \<and> classify media_info fsize =
           Inr (if fsize > 20 * 1024 ^ 3 then ''RE-ENCODE | REMUX'' else ''REMUX'')"
proof -
  from assms(4) have l: "lacks_language s"
    by (auto simp: lacks_language_def)
  have sok: "stream_ok s"
    using assms(1,2) by (rule stream_of_metadata_ok)
  have u: "untagged ''audio'' media_info \<or> untagged ''subtitle'' media_info"
    using assms(2,3) l by (blast intro: untagged_member)
  have c: "classify media_info fsize =
           Inr (if fsize > 20 * 1024 ^ 3 then ''RE-ENCODE | REMUX'' else ''REMUX'')"
    using u by (simp add: classify_ok [OF assms(1)])
  from l c show ?thesis
    by (simp add: stream_missing_ok [OF sok])
qed

theorem empty_language_counts_as_missing_witness:
  "metadata_ok (probe_output [stream_without ''video'', stream_with ''audio'' []])
   \<and> language_tag (stream_with ''audio'' []) = Some (JStr [])
   \<and> stream_missing ''audio'' (stream_with ''audio'' []) = Inr True
   \<and> classify (probe_output [stream_without ''video'', stream_with ''audio'' []]) (1024 ^ 3)
       = Inr ''REMUX''
   \<and> classify (probe_output [stream_without ''video'', stream_without ''audio'']) (1024 ^ 3)
       = Inr ''REMUX''"
proof -
  let ?empty = "probe_output [stream_without ''video'', stream_with ''audio'' []]"
  let ?none = "probe_output [stream_without ''video'', stream_without ''audio'']"
  note defs = probe_output_def stream_with_def stream_without_def
  have ok: "metadata_ok ?empty" "metadata_ok ?none"
    by (simp_all add: defs)
  have m: "stream_with ''audio'' [] \<in> set (streams_of ?empty)"
          "stream_without ''audio'' \<in> set (streams_of ?none)"
    by (simp_all add: defs)
  have k: "is_kind ''audio'' (stream_with ''audio'' []) \<or> is_kind ''subtitle'' (stream_with ''audio'' [])"
          "is_kind ''audio'' (stream_without ''audio'') \<or> is_kind ''subtitle'' (stream_without ''audio'')"
    by (simp_all add: defs)
  have t: "language_tag (stream_with ''audio'' []) = Some (JStr [])"
          "language_tag (stream_without ''audio'') = None"
    by (simp_all add: defs)
  have ka: "is_kind ''audio'' (stream_with ''audio'' [])"
    by (simp add: defs)
  from empty_language_counts_as_missing [OF ok(1) m(1) k(1) disjI1 [OF t(1)], of "1024 ^ 3"]
       empty_language_counts_as_missing [OF ok(2) m(2) k(2) disjI2 [OF t(2)], of "1024 ^ 3"]
       ok(1) t(1) ka
  show ?thesis by simp
qed

section \<open>Stabilisation\<close>

text \<open>
  The loop on a longer list of answers continues from the state it had reached, and a run
  that is still polling has a counter below the threshold.
\<close>

lemma wait_loop_append:
  "wait_loop n l c pre = Polling l' c' \<Longrightarrow>
   wait_loop n l c (pre @ post) = wait_loop n l' c' post"
proof (induction pre arbitrary: l c)
  case Nil
  then show ?case by (cases post) (auto split: if_splits)
next
  case (Cons x pre)
  then show ?case by (cases x) (auto split: if_splits)
qed

lemma wait_loop_polling_less:
  "wait_loop n l c pre = Polling l' c' \<Longrightarrow> c' < n \<and> (0 \<le> c \<longrightarrow> 0 \<le> c')"
proof (induction pre arbitrary: l c)
  case Nil
  then show ?case by (auto split: if_splits)
next
  case (Cons x pre)
  then show ?case by (cases x) (force split: if_splits)+
qed

lemma wait_loop_same:
  "0 \<le> c \<Longrightarrow> c + int k < n \<Longrightarrow>
   wait_loop n s c (replicate k (Size s)) = Polling s (c + int k)"
proof (induction k arbitrary: c)
  case 0
  then show ?case by simp
next
  case (Suc k)
  from Suc.prems have "wait_loop n s (c + 1) (replicate k (Size s)) = Polling s (c + 1 + int k)"
    by (intro Suc.IH) auto
  with Suc.prems show ?case by (simp add: algebra_simps)
qed

lemma wait_loop_enough:
  "0 \<le> c \<Longrightarrow> c \<le> n \<Longrightarrow>
   wait_loop n s c (replicate (nat (n - c)) (Size s) @ post) = Stable post"
proof (induction "nat (n - c)" arbitrary: c)
  case 0
  then have "c = n" by simp
  then show ?case using 0 by (cases post) auto
next
  case (Suc k)
  then have lt: "c < n" and k: "k = nat (n - (c + 1))" by auto
  from Suc(2) have rep:
    "replicate (nat (n - c)) (Size s) = Size s # replicate (nat (n - (c + 1))) (Size s)"
    using k by (metis replicate_Suc)
  have "wait_loop n s (c + 1) (replicate (nat (n - (c + 1))) (Size s) @ post) = Stable post"
    using Suc(1) [OF k] Suc.prems lt by simp
  then show ?case using lt by (simp add: rep)
qed

text \<open>
  C2, as the code has it.  The counter counts the samples equal to their predecessor, so
  after a change (the first sample is one: \<open>last_size\<close> starts at \<open>-1\<close>) the loop needs
  \<open>STABILIZE_CHECKS\<close> further equal samples: the changed sample sets the counter to zero,
  with fewer further samples the loop is still polling, with \<open>STABILIZE_CHECKS\<close> of them it
  returns True.  While it is polling, a call that finds the file gone returns False, and
  any other error of the call leaves the function.
\<close>

theorem wait_needs_checks_after_change:
  assumes "wait_for_stable_file checks pre = Polling last_size stable_count"
      and "s \<noteq> last_size"
  shows "wait_for_stable_file checks (pre @ [Size s]) = Polling s 0
       \<and> (\<forall>k. int k < checks \<longrightarrow>
             wait_for_stable_file checks (pre @ Size s # replicate k (Size s))
               = Polling s (int k))
       \<and> wait_for_stable_file checks (pre @ Size s # replicate (nat checks) (Size s) @ post)
           = Stable post
       \<and> wait_for_stable_file checks (pre @ Missing # post) = Vanished post
       \<and> wait_for_stable_file checks (pre @ Denied # post) = WaitRaised OSError post"
proof -
  from assms(1) have p: "wait_loop checks (- 1) 0 pre = Polling last_size stable_count"
    by (simp add: wait_for_stable_file_def)
  from wait_loop_polling_less [OF p] have lt: "stable_count < checks" and pos: "0 < checks"
    by auto
  have a: "wait_for_stable_file checks (pre @ xs) = wait_loop checks last_size stable_count xs"
    for xs
    using wait_loop_append [OF p] by (simp add: wait_for_stable_file_def)
  have 1: "wait_for_stable_file checks (pre @ [Size s]) = Polling s 0"
    using lt pos assms(2) by (simp add: a)
  have 2: "wait_for_stable_file checks (pre @ Size s # replicate k (Size s)) = Polling s (int k)"
    if "int k < checks" for k
    using lt assms(2) wait_loop_same [of 0 k checks s] that by (simp add: a)
  have 3: "wait_for_stable_file checks (pre @ Size s # replicate (nat checks) (Size s) @ post)
             = Stable post"
    using lt assms(2) wait_loop_enough [of 0 checks s post] pos by (simp add: a)
  have 4: "wait_for_stable_file checks (pre @ Missing # post) = Vanished post"
    using lt by (simp add: a)
  have 5: "wait_for_stable_file checks (pre @ Denied # post) = WaitRaised OSError post"
    using lt by (simp add: a)
  from 1 2 3 4 5 show ?thesis by blast
qed

text \<open>
  With the threshold 3: four samples of 100 make the file stable; after the sample 100 the
  change to 150 restarts the counter and three more samples of 150 make the file stable;
  a file gone at the second sample has vanished.
\<close>

theorem wait_needs_checks_after_change_witness:
  "wait_for_stable_file 3 [] = Polling (- 1) 0
   \<and> wait_for_stable_file 3 [Size 100, Size 100, Size 100, Size 100] = Stable []
   \<and> wait_for_stable_file 3 [Size 100] = Polling 100 0
   \<and> wait_for_stable_file 3 [Size 100, Size 150] = Polling 150 0
   \<and> wait_for_stable_file 3 [Size 100, Size 150, Size 150, Size 150, Size 150] = Stable []
   \<and> wait_for_stable_file 3 [Size 100, Missing] = Vanished []"
proof -
  have p0: "wait_for_stable_file 3 [] = Polling (- 1) 0"
    by (simp add: wait_for_stable_file_def)
  have n0: "(100::int) \<noteq> - 1"
    by simp
  have p: "wait_for_stable_file 3 [Size 100] = Polling 100 0"
    by (simp add: wait_for_stable_file_def)
  have n: "(150::int) \<noteq> 100"
    by simp
  show ?thesis
    using p0 p wait_needs_checks_after_change [OF p0 n0, of "[]"]
      wait_needs_checks_after_change [OF p n, of "[]"]
    by (simp add: numeral_3_eq_3)
qed

text \<open>
  C2, as the claim states it, fails: after the three samples 100, 100, 100 the counter is
  2 and the loop asks for a fourth sample (if the file is gone by then, the result is
  False); after 100, 150, 150, 150 the counter is 2 as well.
\<close>

theorem three_equal_samples_keep_polling:
  "wait_for_stable_file 3 [Size 100, Size 100, Size 100] = Polling 100 2
   \<and> wait_for_stable_file 3 [Size 100, Size 100, Size 100, Missing] = Vanished []
   \<and> wait_for_stable_file 3 [Size 100, Size 150, Size 150, Size 150] = Polling 150 2"
  by (simp add: wait_for_stable_file_def)

section \<open>The dedup store\<close>

lemma distinct_insert_or_replace:
  "distinct (map r_filepath tbl) \<Longrightarrow> distinct (map r_filepath (insert_or_replace tbl new))"
  by (auto simp: insert_or_replace_def distinct_map_filter)

lemma distinct_store_after:
  "distinct (map r_filepath tbl) \<Longrightarrow> distinct (map r_filepath (store_after calls tbl))"
proof (induction calls arbitrary: tbl)
  case Nil
  then show ?case by simp
next
  case (Cons c calls)
  obtain locked filepath status fsize now where c: "c = (locked, filepath, status, fsize, now)"
    by (cases c) auto
  show ?case
    unfolding c store_after.simps
    by (rule Cons.IH) (auto simp: mark_as_processed_def Cons.prems distinct_insert_or_replace)
qed

text \<open>
  C4.  After \<^verbatim>\<open>mark_as_processed\<close> for a path, \<^verbatim>\<open>is_already_processed\<close> answers True
  for it.  The write is an upsert that overwrites: the table then holds exactly the new row
  for the path, the rows of the other paths are untouched, and a second write for the same
  path leaves what it would have left without the first.  Every table reached from a new
  database, or from a table with one row per path, by any calls of \<^verbatim>\<open>mark_as_processed\<close>
  has at most one row per path.
\<close>

theorem mark_as_processed_upsert:
  "(\<exists>tbl'. mark_as_processed False tbl filepath status fsize now = Inr tbl'
       \<and> is_already_processed False tbl' filepath = Inr True
       \<and> filter (\<lambda>r. r_filepath r = filepath) tbl' =
           [\<lparr>r_filepath = filepath, r_processed_at = now, r_status = status,
             r_size = fsize\<rparr>]
       \<and> filter (\<lambda>r. r_filepath r \<noteq> filepath) tbl' =
           filter (\<lambda>r. r_filepath r \<noteq> filepath) tbl
       \<and> mark_as_processed False tbl' filepath status2 fsize2 now2 =
           mark_as_processed False tbl filepath status2 fsize2 now2)
   \<and> distinct (map r_filepath (store_after calls (init_db None)))
   \<and> (distinct (map r_filepath tbl) \<longrightarrow>
        distinct (map r_filepath (store_after calls (init_db (Some tbl)))))"
proof -
  let ?new = "\<lparr>r_filepath = filepath, r_processed_at = now, r_status = status,
                r_size = fsize\<rparr>"
  let ?tbl' = "insert_or_replace tbl ?new"
  have m: "mark_as_processed False tbl filepath status fsize now = Inr ?tbl'"
    by (simp add: mark_as_processed_def)
  have s: "is_already_processed False ?tbl' filepath = Inr True"
    by (simp add: is_already_processed_def select_filepath_def fetchone_def
          insert_or_replace_def)
  have f1: "filter (\<lambda>r. r_filepath r = filepath) ?tbl' = [?new]"
    by (simp add: insert_or_replace_def)
  have f2: "filter (\<lambda>r. r_filepath r \<noteq> filepath) ?tbl' =
            filter (\<lambda>r. r_filepath r \<noteq> filepath) tbl"
    by (simp add: insert_or_replace_def)
  have o: "mark_as_processed False ?tbl' filepath status2 fsize2 now2 =
           mark_as_processed False tbl filepath status2 fsize2 now2"
    by (simp add: mark_as_processed_def insert_or_replace_def)
  have d0: "distinct (map r_filepath (store_after calls (init_db None)))"
    by (rule distinct_store_after) (simp add: init_db_def)
  have d1: "distinct (map r_filepath tbl) \<longrightarrow>
        distinct (map r_filepath (store_after calls (init_db (Some tbl))))"
    by (simp add: init_db_def distinct_store_after)
  from m s f1 f2 o d0 d1 show ?thesis by blast
qed

text \<open>
  A table with a row for the sample path, written again with another status: the path is
  found, and the table after a further write still has one row per path.
\<close>

theorem mark_as_processed_upsert_witness:
  "distinct (map r_filepath
      [\<lparr>r_filepath = sample_path, r_processed_at = 1, r_status = ''OK'', r_size = 100\<rparr>])
   \<and> (\<exists>tbl'. mark_as_processed False
          [\<lparr>r_filepath = sample_path, r_processed_at = 1, r_status = ''OK'', r_size = 100\<rparr>]
          sample_path ''REMUX'' 200 2 = Inr tbl'
        \<and> is_already_processed False tbl' sample_path = Inr True
        \<and> filter (\<lambda>r. r_filepath r = sample_path) tbl' =
            [\<lparr>r_filepath = sample_path, r_processed_at = 2, r_status = ''REMUX'',
              r_size = 200\<rparr>])
   \<and> distinct (map r_filepath
        (store_after [(False, sample_path, ''REMUX'', 200, 2)]
           (init_db (Some [\<lparr>r_filepath = sample_path, r_processed_at = 1, r_status = ''OK'',
                            r_size = 100\<rparr>]))))"
proof -
  let ?tbl = "[\<lparr>r_filepath = sample_path, r_processed_at = 1, r_status = ''OK'',
                 r_size = 100\<rparr>]"
  have d: "distinct (map r_filepath ?tbl)"
    by simp
  from mark_as_processed_upsert
         [of ?tbl sample_path "''REMUX''" 200 2 "''REMUX''" 200 2
             "[(False, sample_path, ''REMUX'', 200, 2)]"] d
  show ?thesis by blast
qed

section \<open>The probe\<close>

text \<open>
  C8, as the code has it.  The probe has failed exactly when \<^verbatim>\<open>subprocess.run\<close> raises,
  when the standard output is not JSON, or when it is JSON of a false value (as the empty
  object).  The return code is not read: output that parses is returned as it is, whatever
  the return code.
\<close>

theorem probe_failed_cases:
  "probe_failed (RunRaises e)
   \<and> probe_failed (Exited returncode None)
   \<and> get_media_info (Exited returncode (Some j)) = j
   \<and> probe_failed (Exited returncode (Some j)) = (\<not> truthy j)"
  by (simp add: probe_failed_def get_media_info_def)

section \<open>The workflow\<close>

subsection \<open>What the two senders leave behind\<close>

lemma ntfy_events:
  "fst (send_ntfy_notification c a) =
     (if truthy (enable_ntfy c) \<and> truthy (ntfy_topic c) then [NtfyPost a] else [])"
  by (simp add: send_ntfy_notification_def split: post.splits)

lemma ntfy_lines:
  "snd (send_ntfy_notification c a) =
     (if truthy (enable_ntfy c) \<and> truthy (ntfy_topic c)
      then [case a of Response code \<Rightarrow> NtfySent code | PostRaises e \<Rightarrow> NtfyError e]
      else [])"
  by (simp add: send_ntfy_notification_def split: post.splits)

lemma discord_events:
  "fst (send_discord_notification c f b m) =
     (if truthy (enable_discord c) \<and> truthy (discord_webhook c) \<and> media_details f m = Inr ()
      then [DiscordPost b] else [])"
  by (simp add: send_discord_notification_def split: post.splits sum.splits)

lemma discord_lines:
  "snd (send_discord_notification c f b m) =
     (if truthy (enable_discord c) \<and> truthy (discord_webhook c)
      then [case media_details f m of
              Inl e \<Rightarrow> DiscordError e
            | Inr u \<Rightarrow>
                (case b of Response code \<Rightarrow> DiscordSent code | PostRaises e \<Rightarrow> DiscordError e)]
      else [])"
  by (simp add: send_discord_notification_def split: post.splits sum.splits)

lemma send_ntfy_no_mark: "\<not> list_ex is_mark (fst (send_ntfy_notification c a))"
  by (simp add: ntfy_events)

lemma send_discord_no_mark: "\<not> list_ex is_mark (fst (send_discord_notification c f b m))"
  by (simp add: discord_events)

lemma replicate_no_mark: "\<not> list_ex is_mark (replicate n Sample)"
  by (induction n) auto

lemma filter_replicate_Sample:
  "filter is_mark (replicate n Sample) = []"
  "filter is_ntfy (replicate n Sample) = []"
  "filter is_discord (replicate n Sample) = []"
  by (induction n) auto

subsection \<open>Runs that do not end normally, and runs that do\<close>

lemma seen_if_row:
  "r \<in> set tbl \<Longrightarrow> r_filepath r = filepath \<Longrightarrow>
   fetchone (select_filepath tbl filepath) \<noteq> None"
  by (auto simp: fetchone_def select_filepath_def filter_empty_conv split: list.splits)

lemma analyze_stable_unprocessed:
  assumes "\<not> list_ex is_mark polls"
  shows "(\<forall>st. ending (analyze_stable w tbl filepath polls rest) \<noteq> Processed st) \<Longrightarrow>
         table_after (analyze_stable w tbl filepath polls rest) = tbl
         \<and> \<not> list_ex is_mark (events (analyze_stable w tbl filepath polls rest))"
  using assms
  by (auto simp: analyze_stable_def Let_def send_ntfy_no_mark send_discord_no_mark
      split: list.splits sample.splits sum.splits if_splits)

lemma analyze_file_unprocessed:
  "(\<forall>st. ending (analyze_file w tbl filepath) \<noteq> Processed st) \<Longrightarrow>
     table_after (analyze_file w tbl filepath) = tbl
     \<and> \<not> list_ex is_mark (events (analyze_file w tbl filepath))"
  using analyze_stable_unprocessed [OF replicate_no_mark]
  by (auto simp: analyze_file_def replicate_no_mark
      split: sum.splits wait_result.splits if_splits)

lemma analyze_stable_processed:
  assumes "ending (analyze_stable w tbl p polls rest) = Processed st"
  shows "\<exists>fsize later. rest = Size fsize # later
      \<and> truthy (get_media_info (ffprobe w))
      \<and> classify (get_media_info (ffprobe w)) fsize = Inr st
      \<and> \<not> mark_locked w
      \<and> events (analyze_stable w tbl p polls rest) =
          polls @ [Sample, Probe] @ fst (send_ntfy_notification (cfg w) (ntfy_answer w))
            @ fst (send_discord_notification (cfg w) (float_exn w) (discord_answer w)
                     (get_media_info (ffprobe w)))
            @ [Mark p st fsize]
      \<and> printed (analyze_stable w tbl p polls rest) =
          [Analyzing, Waiting] @ snd (send_ntfy_notification (cfg w) (ntfy_answer w))
            @ snd (send_discord_notification (cfg w) (float_exn w) (discord_answer w)
                     (get_media_info (ffprobe w)))
            @ [ProcessedLine st]
      \<and> table_after (analyze_stable w tbl p polls rest) =
          insert_or_replace tbl
            \<lparr>r_filepath = p, r_processed_at = datetime_now w, r_status = st, r_size = fsize\<rparr>"
  using assms
  by (auto simp: analyze_stable_def Let_def mark_as_processed_def
      split: list.splits sample.splits sum.splits if_splits)

lemma analyze_file_processed:
  assumes "ending (analyze_file w tbl p) = Processed st"
  shows "\<exists>fsize n.
        truthy (get_media_info (ffprobe w))
      \<and> classify (get_media_info (ffprobe w)) fsize = Inr st
      \<and> events (analyze_file w tbl p) =
          replicate n Sample @ [Sample, Probe]
            @ fst (send_ntfy_notification (cfg w) (ntfy_answer w))
            @ fst (send_discord_notification (cfg w) (float_exn w) (discord_answer w)
                     (get_media_info (ffprobe w)))
            @ [Mark p st fsize]
      \<and> printed (analyze_file w tbl p) =
          [Analyzing, Waiting] @ snd (send_ntfy_notification (cfg w) (ntfy_answer w))
            @ snd (send_discord_notification (cfg w) (float_exn w) (discord_answer w)
                     (get_media_info (ffprobe w)))
            @ [ProcessedLine st]
      \<and> table_after (analyze_file w tbl p) =
          insert_or_replace tbl
            \<lparr>r_filepath = p, r_processed_at = datetime_now w, r_status = st, r_size = fsize\<rparr>"
proof -
  from assms obtain rest where
    e: "analyze_file w tbl p =
          analyze_stable w tbl p (replicate (length (getsize w) - length rest) Sample) rest"
    by (auto simp: analyze_file_def split: sum.splits wait_result.splits if_splits)
  from analyze_stable_processed [OF assms [unfolded e]] show ?thesis
    unfolding e by blast
qed

lemma analyze_file_mark_last:
  assumes "ending (analyze_file w tbl p) = Processed st"
  shows "\<exists>es fsize. events (analyze_file w tbl p) = es @ [Mark p st fsize]
            \<and> \<not> list_ex is_mark es"
proof -
  from analyze_file_processed [OF assms] obtain fsize n where
    ev: "events (analyze_file w tbl p) =
          (replicate n Sample @ [Sample, Probe]
            @ fst (send_ntfy_notification (cfg w) (ntfy_answer w))
            @ fst (send_discord_notification (cfg w) (float_exn w) (discord_answer w)
                     (get_media_info (ffprobe w))))
            @ [Mark p st fsize]"
    by auto
  have "\<not> list_ex is_mark (replicate n Sample @ [Sample, Probe]
            @ fst (send_ntfy_notification (cfg w) (ntfy_answer w))
            @ fst (send_discord_notification (cfg w) (float_exn w) (discord_answer w)
                     (get_media_info (ffprobe w))))"
    by (simp add: replicate_no_mark send_ntfy_no_mark send_discord_no_mark)
  with ev show ?thesis by blast
qed

lemma analyze_stable_not_early:
  "ending (analyze_stable w tbl filepath polls rest) \<noteq> AlreadyProcessed"
  by (auto simp: analyze_stable_def Let_def
      split: list.splits sample.splits sum.splits if_splits)

lemma early_ending_unseen:
  "ending (analyze_file w tbl filepath) = Disappeared
     \<or> ending (analyze_file w tbl filepath) = NoMediaInfo
   \<Longrightarrow> fetchone (select_filepath tbl filepath) = None"
  by (auto simp: analyze_file_def is_already_processed_def
      split: sum.splits wait_result.splits if_splits)

lemma unseen_not_skipped:
  "fetchone (select_filepath tbl filepath) = None \<Longrightarrow>
   ending (analyze_file w2 tbl filepath) \<noteq> AlreadyProcessed"
  using analyze_stable_not_early
  by (auto simp: analyze_file_def is_already_processed_def
      split: sum.splits wait_result.splits if_splits)

subsection \<open>The answers of the endpoints\<close>

lemma analyze_stable_answers:
  "ending (analyze_stable (w\<lparr>ntfy_answer := a, discord_answer := b\<rparr>) tbl p polls rest)
     = ending (analyze_stable w tbl p polls rest)"
  "table_after (analyze_stable (w\<lparr>ntfy_answer := a, discord_answer := b\<rparr>) tbl p polls rest)
     = table_after (analyze_stable w tbl p polls rest)"
  "filter is_mark
     (events (analyze_stable (w\<lparr>ntfy_answer := a, discord_answer := b\<rparr>) tbl p polls rest))
     = filter is_mark (events (analyze_stable w tbl p polls rest))"
  "filter is_ntfy (events (analyze_stable (w\<lparr>discord_answer := b\<rparr>) tbl p polls rest))
     = filter is_ntfy (events (analyze_stable w tbl p polls rest))"
  "filter is_discord (events (analyze_stable (w\<lparr>ntfy_answer := a\<rparr>) tbl p polls rest))
     = filter is_discord (events (analyze_stable w tbl p polls rest))"
  by (simp_all add: analyze_stable_def Let_def ntfy_events discord_events
      split: list.splits sample.splits sum.splits)

lemma analyze_file_answers:
  "ending (analyze_file (w\<lparr>ntfy_answer := a, discord_answer := b\<rparr>) tbl p)
     = ending (analyze_file w tbl p)
   \<and> table_after (analyze_file (w\<lparr>ntfy_answer := a, discord_answer := b\<rparr>) tbl p)
     = table_after (analyze_file w tbl p)
   \<and> filter is_mark (events (analyze_file (w\<lparr>ntfy_answer := a, discord_answer := b\<rparr>) tbl p))
     = filter is_mark (events (analyze_file w tbl p))
   \<and> filter is_ntfy (events (analyze_file (w\<lparr>discord_answer := b\<rparr>) tbl p))
     = filter is_ntfy (events (analyze_file w tbl p))
   \<and> filter is_discord (events (analyze_file (w\<lparr>ntfy_answer := a\<rparr>) tbl p))
     = filter is_discord (events (analyze_file w tbl p))"
  by (simp add: analyze_file_def analyze_stable_answers filter_replicate_Sample
      split: sum.splits wait_result.splits)

subsection \<open>The example runs\<close>

lemmas run_defs =
  analyze_file_def analyze_stable_def sample_env_def sample_config_def sample_info_def
  sample_float_def sample_path_def probe_output_def stream_with_def stream_without_def
  is_already_processed_def select_filepath_def fetchone_def wait_for_stable_file_def
  get_media_info_def classify_def count_missing_def stream_missing_def status_list_def
  format_name_of_def send_ntfy_notification_def send_discord_notification_def
  media_details_def kind_streams_def mark_as_processed_def insert_or_replace_def Let_def

lemma sample_run:
  "analyze_file sample_env [] sample_path =
    \<lparr>table_after = [\<lparr>r_filepath = sample_path, r_processed_at = 1700000000,
                      r_status = ''OK'', r_size = 100\<rparr>],
     events = [Sample, Sample, Sample, Sample, Sample, Probe, NtfyPost (Response 200),
               DiscordPost (Response 204), Mark sample_path ''OK'' 100],
     printed = [Analyzing, Waiting, NtfySent 200, DiscordSent 204, ProcessedLine ''OK''],
     ending = Processed ''OK''\<rparr>"
  by (simp add: run_defs)

lemma vanished_run:
  "analyze_file (sample_env\<lparr>getsize := [Size 100, Missing]\<rparr>) [] sample_path =
    \<lparr>table_after = [], events = [Sample, Sample],
     printed = [Analyzing, Waiting, DisappearedLine], ending = Disappeared\<rparr>"
  by (simp add: run_defs)

lemma sample_details: "media_details sample_float sample_info = Inr ()"
  by (simp add: run_defs)

subsection \<open>The claims about the workflow\<close>

text \<open>
  C8, as the claim states it, fails: the tool exits with return code 1 and has written a
  metadata object to its standard output; the probe has not failed, and the run classifies
  the file and stores it as processed.
\<close>

theorem nonzero_exit_with_output_is_processed:
  "\<not> probe_failed (Exited 1 (Some sample_info))
   \<and> ending (analyze_file (sample_env\<lparr>ffprobe := Exited 1 (Some sample_info)\<rparr>) [] sample_path)
       = Processed ''OK''"
  by (simp add: probe_failed_def run_defs)

text \<open>
  C5.  A run that ends because the file vanished or because the probe failed leaves the
  table as it was and writes no row, so the path is still unprocessed and a later run for
  it does not stop at the dedup check; a run ends with the probe's failure only when the
  probe has failed, and a failed probe never leads to a row.  More generally no run but
  one that ends normally changes the table, and in a run that ends normally the row is
  written once, as the last of its events.
\<close>

theorem no_record_unless_processed:
  "(ending (analyze_file w tbl filepath) = Disappeared
      \<or> ending (analyze_file w tbl filepath) = NoMediaInfo \<longrightarrow>
        table_after (analyze_file w tbl filepath) = tbl
      \<and> \<not> list_ex is_mark (events (analyze_file w tbl filepath))
      \<and> is_already_processed False (table_after (analyze_file w tbl filepath)) filepath
          = Inr False
      \<and> ending (analyze_file w2 (table_after (analyze_file w tbl filepath)) filepath)
          \<noteq> AlreadyProcessed)
   \<and> (ending (analyze_file w tbl filepath) = NoMediaInfo \<longrightarrow> probe_failed (ffprobe w))
   \<and> (probe_failed (ffprobe w) \<longrightarrow> table_after (analyze_file w tbl filepath) = tbl)
   \<and> ((\<forall>st. ending (analyze_file w tbl filepath) \<noteq> Processed st) \<longrightarrow>
        table_after (analyze_file w tbl filepath) = tbl
      \<and> \<not> list_ex is_mark (events (analyze_file w tbl filepath)))
   \<and> (ending (analyze_file w tbl filepath) = Processed st \<longrightarrow>
        (\<exists>es fsize. events (analyze_file w tbl filepath) = es @ [Mark filepath st fsize]
            \<and> \<not> list_ex is_mark es))"
proof -
  let ?o = "analyze_file w tbl filepath"
  have early: "table_after ?o = tbl \<and> \<not> list_ex is_mark (events ?o)
      \<and> is_already_processed False (table_after ?o) filepath = Inr False
      \<and> ending (analyze_file w2 (table_after ?o) filepath) \<noteq> AlreadyProcessed"
    if e: "ending ?o = Disappeared \<or> ending ?o = NoMediaInfo"
  proof -
    from e have "\<forall>st. ending ?o \<noteq> Processed st" by auto
    then have t: "table_after ?o = tbl \<and> \<not> list_ex is_mark (events ?o)"
      by (rule analyze_file_unprocessed)
    from e have u: "fetchone (select_filepath tbl filepath) = None"
      by (rule early_ending_unseen)
    from t u unseen_not_skipped [OF u, of w2] show ?thesis
      by (simp add: is_already_processed_def)
  qed
  have nomedia: "probe_failed (ffprobe w)" if "ending ?o = NoMediaInfo"
    using that
    by (auto simp: analyze_file_def analyze_stable_def Let_def probe_failed_def
        split: sum.splits wait_result.splits if_splits list.splits sample.splits)
  have failed: "table_after ?o = tbl" if f: "probe_failed (ffprobe w)"
  proof -
    have "\<forall>st. ending ?o \<noteq> Processed st"
    proof (intro allI notI)
      fix st
      assume "ending ?o = Processed st"
      from analyze_file_processed [OF this] f show False
        by (auto simp: probe_failed_def)
    qed
    then show ?thesis
      using analyze_file_unprocessed by blast
  qed
  have others: "table_after ?o = tbl \<and> \<not> list_ex is_mark (events ?o)"
    if "\<forall>st. ending ?o \<noteq> Processed st"
    using that by (rule analyze_file_unprocessed)
  have normal: "\<exists>es fsize. events ?o = es @ [Mark filepath st fsize] \<and> \<not> list_ex is_mark es"
    if "ending ?o = Processed st"
    using that by (rule analyze_file_mark_last)
  from early nomedia failed others normal show ?thesis by blast
qed

text \<open>
  The file of the example vanishes at the second sample: no row, and a later run at the
  same path runs to its end, where the row is the last event.
\<close>

theorem no_record_unless_processed_witness:
  "ending (analyze_file (sample_env\<lparr>getsize := [Size 100, Missing]\<rparr>) [] sample_path)
     = Disappeared
   \<and> table_after (analyze_file (sample_env\<lparr>getsize := [Size 100, Missing]\<rparr>) [] sample_path)
       = []
   \<and> ending (analyze_file sample_env
        (table_after (analyze_file (sample_env\<lparr>getsize := [Size 100, Missing]\<rparr>) []
           sample_path)) sample_path) \<noteq> AlreadyProcessed
   \<and> ending (analyze_file sample_env [] sample_path) = Processed ''OK''
   \<and> (\<exists>es fsize. events (analyze_file sample_env [] sample_path)
          = es @ [Mark sample_path ''OK'' fsize] \<and> \<not> list_ex is_mark es)"
proof -
  have v: "ending (analyze_file (sample_env\<lparr>getsize := [Size 100, Missing]\<rparr>) [] sample_path)
             = Disappeared"
    by (simp add: vanished_run)
  have p: "ending (analyze_file sample_env [] sample_path) = Processed ''OK''"
    by (simp add: sample_run)
  from no_record_unless_processed
         [where w = "sample_env\<lparr>getsize := [Size 100, Missing]\<rparr>" and tbl = "[]"
            and filepath = sample_path and ?w2.0 = sample_env]
       no_record_unless_processed
         [where w = sample_env and tbl = "[]" and filepath = sample_path and st = "''OK''"]
       v p
  show ?thesis by simp
qed

text \<open>
  C6.  When the table has a row for the path, a run for it makes no call to the outside
  world: no \<^verbatim>\<open>getsize\<close>, no probe, no POST, no write.  It ends at the dedup check, with
  the early return, or with the exception of the check when the database is locked.
\<close>

theorem processed_path_stops_at_check:
  assumes "r \<in> set tbl" and "r_filepath r = filepath"
  shows "events (analyze_file w tbl filepath) = []
       \<and> table_after (analyze_file w tbl filepath) = tbl
       \<and> ending (analyze_file w tbl filepath) =
           (if check_locked w then Propagated OperationalError else AlreadyProcessed)"
  using seen_if_row [OF assms]
  by (simp add: analyze_file_def is_already_processed_def)

theorem processed_path_stops_at_check_witness:
  "events (analyze_file sample_env
      [\<lparr>r_filepath = sample_path, r_processed_at = 1, r_status = ''OK'', r_size = 100\<rparr>]
      sample_path) = []
   \<and> ending (analyze_file sample_env
      [\<lparr>r_filepath = sample_path, r_processed_at = 1, r_status = ''OK'', r_size = 100\<rparr>]
      sample_path) = AlreadyProcessed"
proof -
  let ?r = "\<lparr>r_filepath = sample_path, r_processed_at = 1, r_status = ''OK'', r_size = 100\<rparr>"
  have m: "?r \<in> set [?r]"
    by simp
  have k: "r_filepath ?r = sample_path"
    by simp
  have l: "\<not> check_locked sample_env"
    by (simp add: sample_env_def)
  from processed_path_stops_at_check [OF m k, of sample_env] l show ?thesis
    by simp
qed

text \<open>
  C7.  Neither sender raises: what an endpoint answers, a status code or an exception,
  ends inside the sender as a printed line.  So the end of a run, the table it leaves and
  the row it writes do not depend on the two answers, the simple channel's POST does not
  depend on the rich channel's answer, nor the rich channel's on the simple channel's.  In
  a run that ends normally, whatever the two endpoints answer, the row is written last,
  each enabled channel is posted to once, and each answer is printed.
\<close>

theorem notification_failure_is_isolated:
  "ending (analyze_file (w\<lparr>ntfy_answer := a, discord_answer := b\<rparr>) tbl filepath)
     = ending (analyze_file w tbl filepath)
   \<and> table_after (analyze_file (w\<lparr>ntfy_answer := a, discord_answer := b\<rparr>) tbl filepath)
     = table_after (analyze_file w tbl filepath)
   \<and> filter is_mark
       (events (analyze_file (w\<lparr>ntfy_answer := a, discord_answer := b\<rparr>) tbl filepath))
     = filter is_mark (events (analyze_file w tbl filepath))
   \<and> filter is_ntfy (events (analyze_file (w\<lparr>discord_answer := b\<rparr>) tbl filepath))
     = filter is_ntfy (events (analyze_file w tbl filepath))
   \<and> filter is_discord (events (analyze_file (w\<lparr>ntfy_answer := a\<rparr>) tbl filepath))
     = filter is_discord (events (analyze_file w tbl filepath))
   \<and> (ending (analyze_file w tbl filepath) = Processed st \<longrightarrow>
        (\<exists>fsize.
           last (events (analyze_file (w\<lparr>ntfy_answer := a, discord_answer := b\<rparr>) tbl filepath))
             = Mark filepath st fsize
         \<and> \<lparr>r_filepath = filepath, r_processed_at = datetime_now w, r_status = st,
             r_size = fsize\<rparr>
             \<in> set (table_after
                      (analyze_file (w\<lparr>ntfy_answer := a, discord_answer := b\<rparr>) tbl filepath)))
      \<and> (truthy (enable_ntfy (cfg w)) \<and> truthy (ntfy_topic (cfg w)) \<longrightarrow>
           filter is_ntfy
             (events (analyze_file (w\<lparr>ntfy_answer := a, discord_answer := b\<rparr>) tbl filepath))
             = [NtfyPost a]
         \<and> (case a of Response code \<Rightarrow> NtfySent code | PostRaises e \<Rightarrow> NtfyError e)
             \<in> set (printed
                      (analyze_file (w\<lparr>ntfy_answer := a, discord_answer := b\<rparr>) tbl filepath)))
      \<and> (truthy (enable_discord (cfg w)) \<and> truthy (discord_webhook (cfg w))
          \<and> media_details (float_exn w) (get_media_info (ffprobe w)) = Inr () \<longrightarrow>
           filter is_discord
             (events (analyze_file (w\<lparr>ntfy_answer := a, discord_answer := b\<rparr>) tbl filepath))
             = [DiscordPost b]
         \<and> (case b of Response code \<Rightarrow> DiscordSent code | PostRaises e \<Rightarrow> DiscordError e)
             \<in> set (printed
                      (analyze_file (w\<lparr>ntfy_answer := a, discord_answer := b\<rparr>) tbl filepath))))"
proof -
  let ?w' = "w\<lparr>ntfy_answer := a, discord_answer := b\<rparr>"
  note ind = analyze_file_answers [where w = w and a = a and b = b and tbl = tbl and p = filepath]
  have pos: ?thesis if p: "ending (analyze_file w tbl filepath) = Processed st"
  proof -
    from p ind have p': "ending (analyze_file ?w' tbl filepath) = Processed st"
      by simp
    from analyze_file_processed [OF p'] obtain fsize n where
      ev: "events (analyze_file ?w' tbl filepath) =
          replicate n Sample @ [Sample, Probe] @ fst (send_ntfy_notification (cfg w) a)
            @ fst (send_discord_notification (cfg w) (float_exn w) b
                     (get_media_info (ffprobe w)))
            @ [Mark filepath st fsize]"
      and pr: "printed (analyze_file ?w' tbl filepath) =
          [Analyzing, Waiting] @ snd (send_ntfy_notification (cfg w) a)
            @ snd (send_discord_notification (cfg w) (float_exn w) b
                     (get_media_info (ffprobe w)))
            @ [ProcessedLine st]"
      and tb: "table_after (analyze_file ?w' tbl filepath) =
          insert_or_replace tbl
            \<lparr>r_filepath = filepath, r_processed_at = datetime_now w, r_status = st,
              r_size = fsize\<rparr>"
      by auto
    have 1: "last (events (analyze_file ?w' tbl filepath)) = Mark filepath st fsize"
      by (simp add: ev)
    have 2: "\<lparr>r_filepath = filepath, r_processed_at = datetime_now w, r_status = st,
              r_size = fsize\<rparr>
             \<in> set (table_after (analyze_file ?w' tbl filepath))"
      by (simp add: tb insert_or_replace_def)
    have 3: "filter is_ntfy (events (analyze_file ?w' tbl filepath)) = [NtfyPost a]
         \<and> (case a of Response code \<Rightarrow> NtfySent code | PostRaises e \<Rightarrow> NtfyError e)
             \<in> set (printed (analyze_file ?w' tbl filepath))"
      if "truthy (enable_ntfy (cfg w)) \<and> truthy (ntfy_topic (cfg w))"
      using that
      by (simp add: ev pr ntfy_events ntfy_lines discord_events filter_replicate_Sample)
    have 4: "filter is_discord (events (analyze_file ?w' tbl filepath)) = [DiscordPost b]
         \<and> (case b of Response code \<Rightarrow> DiscordSent code | PostRaises e \<Rightarrow> DiscordError e)
             \<in> set (printed (analyze_file ?w' tbl filepath))"
      if "truthy (enable_discord (cfg w)) \<and> truthy (discord_webhook (cfg w))
          \<and> media_details (float_exn w) (get_media_info (ffprobe w)) = Inr ()"
      using that
      by (simp add: ev pr ntfy_events discord_lines discord_events filter_replicate_Sample)
    from ind 1 2 3 4 show ?thesis by blast
  qed
  show ?thesis
  proof (cases "ending (analyze_file w tbl filepath) = Processed st")
    case True
    then show ?thesis by (rule pos)
  next
    case False
    with ind show ?thesis by blast
  qed
qed

text \<open>
  The rich channel's endpoint is unreachable and the simple channel's answers 500: the
  simple channel is posted to, both answers are printed, and the row is written.
\<close>

theorem notification_failure_is_isolated_witness:
  "ending (analyze_file sample_env [] sample_path) = Processed ''OK''
   \<and> filter is_ntfy
       (events (analyze_file
          (sample_env\<lparr>ntfy_answer := Response 500,
                       discord_answer := PostRaises RequestException\<rparr>) [] sample_path))
       = [NtfyPost (Response 500)]
   \<and> NtfySent 500
       \<in> set (printed (analyze_file
          (sample_env\<lparr>ntfy_answer := Response 500,
                       discord_answer := PostRaises RequestException\<rparr>) [] sample_path))
   \<and> DiscordError RequestException
       \<in> set (printed (analyze_file
          (sample_env\<lparr>ntfy_answer := Response 500,
                       discord_answer := PostRaises RequestException\<rparr>) [] sample_path))
   \<and> (\<exists>fsize.
         last (events (analyze_file
           (sample_env\<lparr>ntfy_answer := Response 500,
                        discord_answer := PostRaises RequestException\<rparr>) [] sample_path))
           = Mark sample_path ''OK'' fsize
       \<and> \<lparr>r_filepath = sample_path, r_processed_at = datetime_now sample_env,
           r_status = ''OK'', r_size = fsize\<rparr>
           \<in> set (table_after (analyze_file
                (sample_env\<lparr>ntfy_answer := Response 500,
                             discord_answer := PostRaises RequestException\<rparr>) []
                sample_path)))"
proof -
  have p: "ending (analyze_file sample_env [] sample_path) = Processed ''OK''"
    by (simp add: sample_run)
  have n: "truthy (enable_ntfy (cfg sample_env)) \<and> truthy (ntfy_topic (cfg sample_env))"
    by (simp add: sample_env_def sample_config_def)
  have d: "truthy (enable_discord (cfg sample_env))
         \<and> truthy (discord_webhook (cfg sample_env))
         \<and> media_details (float_exn sample_env) (get_media_info (ffprobe sample_env)) = Inr ()"
    by (simp add: sample_env_def sample_config_def get_media_info_def sample_details)
  note t = notification_failure_is_isolated
         [where w = sample_env and a = "Response 500" and b = "PostRaises RequestException"
            and tbl = "[]" and filepath = sample_path and st = "''OK''", unfolded post.case]
  from t p n d show ?thesis by blast
qed

text \<open>
  C9.  The claim asks that no error of a run leaves \<^verbatim>\<open>analyze_file\<close>.  The dedup check
  and the stabilisation stand before the \<^verbatim>\<open>try\<close>: with the database locked at the
  check, and with a \<^verbatim>\<open>getsize\<close> that fails otherwise than by a missing file, the
  exception leaves the function.
\<close>

theorem analyze_file_propagates:
  "ending (analyze_file (sample_env\<lparr>check_locked := True\<rparr>) [] sample_path)
     = Propagated OperationalError
   \<and> ending (analyze_file (sample_env\<lparr>getsize := [Size 100, Denied]\<rparr>) [] sample_path)
     = Propagated OSError"
  by (simp add: run_defs)

subsection \<open>Two workers on the same path\<close>

text \<open>
  A run is its dedup check followed by the rest, and the rest reads the table only for its
  final write.
\<close>

lemma analyze_file_checked:
  "analyze_file w tbl p = analyze_checked (is_already_processed (check_locked w) tbl p) w tbl p"
  by (simp add: analyze_file_def analyze_checked_def after_check_def split: sum.splits)

lemma analyze_stable_table:
  "events (analyze_stable w tbl' p polls rest) = events (analyze_stable w tbl p polls rest)"
  "ending (analyze_stable w tbl' p polls rest) = ending (analyze_stable w tbl p polls rest)"
  "printed (analyze_stable w tbl' p polls rest) = printed (analyze_stable w tbl p polls rest)"
  by (simp_all add: analyze_stable_def Let_def mark_as_processed_def
      split: list.splits sample.splits sum.splits)

lemma after_check_table:
  "events (after_check w tbl' p) = events (after_check w tbl p)"
  "ending (after_check w tbl' p) = ending (after_check w tbl p)"
  "printed (after_check w tbl' p) = printed (after_check w tbl p)"
  by (simp_all add: after_check_def analyze_stable_table [of w tbl' p _ _ tbl]
      split: wait_result.splits)

lemma after_check_processed:
  assumes "ending (after_check w tbl p) = Processed st"
  shows "\<exists>fsize. table_after (after_check w tbl p) =
          insert_or_replace tbl
            \<lparr>r_filepath = p, r_processed_at = datetime_now w, r_status = st, r_size = fsize\<rparr>"
proof -
  from assms obtain rest where
    e: "after_check w tbl p =
          analyze_stable w tbl p (replicate (length (getsize w) - length rest) Sample) rest"
    by (auto simp: after_check_def split: wait_result.splits)
  from analyze_stable_processed [OF assms [unfolded e]] show ?thesis
    unfolding e by blast
qed

lemma one_row_after_insert:
  "filter (\<lambda>r. r_filepath r = p)
     (insert_or_replace tbl \<lparr>r_filepath = p, r_processed_at = t, r_status = st, r_size = z\<rparr>)
   = [\<lparr>r_filepath = p, r_processed_at = t, r_status = st, r_size = z\<rparr>]"
  by (simp add: insert_or_replace_def)

text \<open>
  C3, as the code has it.  For a path with no row in the table, a run that ends normally
  leaves exactly one row for the path, and a run submitted after it stops at the dedup
  check without an event.  When two workers race on the path, both dedup checks reading
  the table before either write, each worker passes the check and runs exactly the events
  it would run alone, the second worker never taking the early return; the second write
  replaces the first, so the table still holds exactly one row for the path.
\<close>

theorem one_record_but_both_workers_run:
  assumes "is_already_processed False tbl filepath = Inr False"
  shows
   "(ending (analyze_file w tbl filepath) = Processed st \<longrightarrow>
        (\<exists>fsize. filter (\<lambda>r. r_filepath r = filepath) (table_after (analyze_file w tbl filepath))
            = [\<lparr>r_filepath = filepath, r_processed_at = datetime_now w, r_status = st,
                r_size = fsize\<rparr>])
      \<and> events (analyze_file w' (table_after (analyze_file w tbl filepath)) filepath) = [])
    \<and> (\<not> check_locked w1 \<and> \<not> check_locked w2 \<longrightarrow>
         events (fst (race w1 w2 tbl filepath)) = events (analyze_file w1 tbl filepath)
       \<and> ending (fst (race w1 w2 tbl filepath)) = ending (analyze_file w1 tbl filepath)
       \<and> events (snd (race w1 w2 tbl filepath)) = events (analyze_file w2 tbl filepath)
       \<and> ending (snd (race w1 w2 tbl filepath)) = ending (analyze_file w2 tbl filepath)
       \<and> ending (snd (race w1 w2 tbl filepath)) \<noteq> AlreadyProcessed
       \<and> (ending (snd (race w1 w2 tbl filepath)) = Processed st2 \<longrightarrow>
            (\<exists>fsize. filter (\<lambda>r. r_filepath r = filepath) (table_after (snd (race w1 w2 tbl filepath)))
               = [\<lparr>r_filepath = filepath, r_processed_at = datetime_now w2, r_status = st2,
                   r_size = fsize\<rparr>])))"
proof -
  from assms have unseen: "fetchone (select_filepath tbl filepath) = None"
    by (simp add: is_already_processed_def)
  have seq: "(\<exists>fsize. filter (\<lambda>r. r_filepath r = filepath) (table_after (analyze_file w tbl filepath))
            = [\<lparr>r_filepath = filepath, r_processed_at = datetime_now w, r_status = st,
                r_size = fsize\<rparr>])
      \<and> events (analyze_file w' (table_after (analyze_file w tbl filepath)) filepath) = []"
    if p: "ending (analyze_file w tbl filepath) = Processed st"
  proof -
    from analyze_file_processed [OF p] obtain fsize where
      tb: "table_after (analyze_file w tbl filepath) =
          insert_or_replace tbl
            \<lparr>r_filepath = filepath, r_processed_at = datetime_now w, r_status = st,
              r_size = fsize\<rparr>"
      by blast
    have row: "fetchone (select_filepath (table_after (analyze_file w tbl filepath)) filepath) \<noteq> None"
      by (simp add: tb insert_or_replace_def select_filepath_def fetchone_def)
    have "events (analyze_file w' (table_after (analyze_file w tbl filepath)) filepath) = []"
      using row by (simp add: analyze_file_def is_already_processed_def)
    with tb show ?thesis
      by (simp add: one_row_after_insert)
  qed
  have rc: "events (fst (race w1 w2 tbl filepath)) = events (analyze_file w1 tbl filepath)
       \<and> ending (fst (race w1 w2 tbl filepath)) = ending (analyze_file w1 tbl filepath)
       \<and> events (snd (race w1 w2 tbl filepath)) = events (analyze_file w2 tbl filepath)
       \<and> ending (snd (race w1 w2 tbl filepath)) = ending (analyze_file w2 tbl filepath)
       \<and> ending (snd (race w1 w2 tbl filepath)) \<noteq> AlreadyProcessed
       \<and> (ending (snd (race w1 w2 tbl filepath)) = Processed st2 \<longrightarrow>
            (\<exists>fsize. filter (\<lambda>r. r_filepath r = filepath) (table_after (snd (race w1 w2 tbl filepath)))
               = [\<lparr>r_filepath = filepath, r_processed_at = datetime_now w2, r_status = st2,
                   r_size = fsize\<rparr>]))"
    if l: "\<not> check_locked w1 \<and> \<not> check_locked w2"
  proof -
    from l unseen have c1: "is_already_processed (check_locked w1) tbl filepath = Inr False"
      and c2: "is_already_processed (check_locked w2) tbl filepath = Inr False"
      by (simp_all add: is_already_processed_def)
    have f: "fst (race w1 w2 tbl filepath) = analyze_file w1 tbl filepath"
      by (simp add: race_def Let_def analyze_file_checked)
    have s: "snd (race w1 w2 tbl filepath)
               = after_check w2 (table_after (after_check w1 tbl filepath)) filepath"
      by (simp add: race_def Let_def c1 c2 analyze_checked_def)
    have a2: "analyze_file w2 tbl filepath = after_check w2 tbl filepath"
      by (simp add: analyze_file_checked c2 analyze_checked_def)
    have ne: "ending (analyze_file w2 tbl filepath) \<noteq> AlreadyProcessed"
      using unseen by (rule unseen_not_skipped)
    have one: "\<exists>fsize. filter (\<lambda>r. r_filepath r = filepath) (table_after (snd (race w1 w2 tbl filepath)))
               = [\<lparr>r_filepath = filepath, r_processed_at = datetime_now w2, r_status = st2,
                   r_size = fsize\<rparr>]"
      if "ending (snd (race w1 w2 tbl filepath)) = Processed st2"
      using after_check_processed [OF that [unfolded s]]
      by (auto simp: s one_row_after_insert)
    from f one ne show ?thesis
      by (simp add: s a2 after_check_table [of w2 "table_after (after_check w1 tbl filepath)" filepath tbl])
  qed
  from seq rc show ?thesis by blast
qed

text \<open>
  The sample file submitted twice: one after the other the second run has no event; in the
  race the second worker runs the events of a run of its own, and one row is left.
\<close>

theorem one_record_but_both_workers_run_witness:
  "is_already_processed False [] sample_path = Inr False
   \<and> ending (analyze_file sample_env [] sample_path) = Processed ''OK''
   \<and> (\<exists>fsize. filter (\<lambda>r. r_filepath r = sample_path)
                  (table_after (analyze_file sample_env [] sample_path))
         = [\<lparr>r_filepath = sample_path, r_processed_at = datetime_now sample_env,
             r_status = ''OK'', r_size = fsize\<rparr>])
   \<and> events (analyze_file sample_env (table_after (analyze_file sample_env [] sample_path))
        sample_path) = []
   \<and> events (snd (race sample_env sample_env [] sample_path))
       = events (analyze_file sample_env [] sample_path)
   \<and> ending (snd (race sample_env sample_env [] sample_path)) = Processed ''OK''
   \<and> (\<exists>fsize. filter (\<lambda>r. r_filepath r = sample_path)
                  (table_after (snd (race sample_env sample_env [] sample_path)))
         = [\<lparr>r_filepath = sample_path, r_processed_at = datetime_now sample_env,
             r_status = ''OK'', r_size = fsize\<rparr>])"
proof -
  have u: "is_already_processed False [] sample_path = Inr False"
    by (simp add: is_already_processed_def select_filepath_def fetchone_def)
  have p: "ending (analyze_file sample_env [] sample_path) = Processed ''OK''"
    by (simp add: sample_run)
  have l: "\<not> check_locked sample_env \<and> \<not> check_locked sample_env"
    by (simp add: sample_env_def)
  note t = one_record_but_both_workers_run
             [OF u, where w = sample_env and w' = sample_env and ?w1.0 = sample_env
                and ?w2.0 = sample_env and st = "''OK''" and ?st2.0 = "''OK''"]
  from t l p have e: "ending (snd (race sample_env sample_env [] sample_path)) = Processed ''OK''"
    by simp
  from t u p l e show ?thesis by blast
qed

text \<open>
  C3, as the claim states it, fails: two workers race on the sample path, the second a
  minute after the first.  Both end normally; between them they run the probe twice and
  post twice to each channel.  The one row left is the second worker's.
\<close>

theorem racing_workers_both_probe_and_notify:
  "ending (fst (race sample_env (sample_env\<lparr>datetime_now := 1700000060\<rparr>) [] sample_path))
     = Processed ''OK''
   \<and> ending (snd (race sample_env (sample_env\<lparr>datetime_now := 1700000060\<rparr>) [] sample_path))
       = Processed ''OK''
   \<and> filter is_probe
       (events (fst (race sample_env (sample_env\<lparr>datetime_now := 1700000060\<rparr>) []
                  sample_path))
        @ events (snd (race sample_env (sample_env\<lparr>datetime_now := 1700000060\<rparr>) []
                    sample_path)))
       = [Probe, Probe]
   \<and> filter is_ntfy
       (events (fst (race sample_env (sample_env\<lparr>datetime_now := 1700000060\<rparr>) []
                  sample_path))
        @ events (snd (race sample_env (sample_env\<lparr>datetime_now := 1700000060\<rparr>) []
                    sample_path)))
       = [NtfyPost (Response 200), NtfyPost (Response 200)]
   \<and> filter is_discord
       (events (fst (race sample_env (sample_env\<lparr>datetime_now := 1700000060\<rparr>) []
                  sample_path))
        @ events (snd (race sample_env (sample_env\<lparr>datetime_now := 1700000060\<rparr>) []
                    sample_path)))
       = [DiscordPost (Response 204), DiscordPost (Response 204)]
   \<and> table_after (snd (race sample_env (sample_env\<lparr>datetime_now := 1700000060\<rparr>) []
                         sample_path))
       = [\<lparr>r_filepath = sample_path, r_processed_at = 1700000060, r_status = ''OK'',
           r_size = 100\<rparr>]"
  by (simp add: race_def analyze_checked_def after_check_def run_defs)

end
